theory Spec2Isabelle
  imports Main
begin

section \<open>The two verification scripts of the repository\<close>

text \<open>
  The repository holds two straight-line Python scripts:

  \<^verbatim>\<open>verify/transformer.py\<close>
  \<^verbatim>\<open>
  from transformers import pipeline
  chatbot = pipeline("text-generation", model="distilgpt2")
  print(chatbot("Hello!", max_length=20))
  \<close>

  \<^verbatim>\<open>verify/twilio_client.py\<close>
  \<^verbatim>\<open>
  import os
  from dotenv import load_dotenv
  from twilio.rest import Client

  account_sid = os.getenv("TWILIO_SID")
  auth_token = os.getenv("TWILIO_AUTH_TOKEN")
  client = Client(account_sid, auth_token)
  print(client)
  \<close>

  Each script is a sequence of calls with effects. The embedding makes the effects
  explicit: a script is a function from the process state to a result and the new
  process state, an exception raised by a call is the result \<open>Inl e\<close> and ends the
  script (neither script has a \<^verbatim>\<open>try\<close>), and every effect is appended to a
  trace of events. The imported libraries are parameters of the model: what
  \<^verbatim>\<open>pipeline\<close>, the pipeline object and \<^verbatim>\<open>Client\<close> answer is not
  code of this repository.
\<close>

subsection \<open>Values, events and the process state\<close>

text \<open>An exception raised by a library call, by its message.\<close>

type_synonym exn = string

text \<open>
  The effects a script can have. A call of a library records its arguments and what it
  answered; \<open>'r\<close> is the type of the value a pipeline object returns, \<open>'c\<close> the type
  of a Twilio client handle.
\<close>

datatype ('r, 'c) event =
    Getenv string "string option"
      \<comment> \<open>\<^verbatim>\<open>os.getenv(key)\<close> and the value read (\<^verbatim>\<open>None\<close> when unset)\<close>
  | Open_file string
      \<comment> \<open>a file opened by the script's own code\<close>
  | Call_pipeline string string "exn option"
      \<comment> \<open>\<^verbatim>\<open>pipeline(task, model=...)\<close>; \<open>None\<close>: it returned a pipeline object\<close>
  | Call_chatbot string int "exn + 'r"
      \<comment> \<open>\<^verbatim>\<open>chatbot(prompt, max_length=...)\<close> and its answer\<close>
  | Call_Client "string option" "string option" "exn + 'c"
      \<comment> \<open>\<^verbatim>\<open>Client(account_sid, auth_token)\<close> and its answer\<close>
  | Network_request 'c
      \<comment> \<open>a request to the remote API issued through a client handle\<close>
  | Write_stdout string
      \<comment> \<open>text written to standard output\<close>

text \<open>
  The imported libraries. \<open>pipeline\<close> loads a model and returns a callable pipeline
  object or raises; the object, called with a prompt and \<^verbatim>\<open>max_length\<close>, returns
  a value or raises; \<open>Client\<close> returns a handle or raises. \<^verbatim>\<open>print\<close> writes
  \<^verbatim>\<open>str(x)\<close>, which for these objects is the library's own \<^verbatim>\<open>__str__\<close> or
  \<^verbatim>\<open>__repr__\<close>.
\<close>

record ('r, 'c) externals =
  pipeline :: "string \<Rightarrow> string \<Rightarrow> exn + (string \<Rightarrow> int \<Rightarrow> exn + 'r)"
  Client :: "string option \<Rightarrow> string option \<Rightarrow> exn + 'c"
  str_result :: "'r \<Rightarrow> string"
  str_client :: "'c \<Rightarrow> string"

text \<open>
  The state of the process: \<^verbatim>\<open>os.environ\<close>, the key/value pairs of the
  \<^verbatim>\<open>.env\<close> file of the working directory (\<open>None\<close> when there is no such file), and
  the events so far.
\<close>

record ('r, 'c) process =
  environ :: "string \<rightharpoonup> string"
  dotenv_file :: "(string \<times> string) list option"
  events :: "('r, 'c) event list"

type_synonym ('r, 'c, 'a) prog =
  "('r, 'c) externals \<Rightarrow> ('r, 'c) process \<Rightarrow> (exn + 'a) \<times> ('r, 'c) process"

subsection \<open>Sequencing and the primitive calls\<close>

text \<open>
  One statement after another: when the first raises, the rest is not run and the
  exception is the result of the whole.
\<close>

definition bind_io ::
  "('r, 'c, 'a) prog \<Rightarrow> ('a \<Rightarrow> ('r, 'c, 'b) prog) \<Rightarrow> ('r, 'c, 'b) prog" where
  "bind_io m k X p =
     (case m X p of
        (Inl e, p') \<Rightarrow> (Inl e, p')
      | (Inr a, p') \<Rightarrow> k a X p')"

definition emit :: "('r, 'c) event \<Rightarrow> ('r, 'c) process \<Rightarrow> ('r, 'c) process" where
  "emit ev p = p\<lparr>events := events p @ [ev]\<rparr>"

text \<open>\<^verbatim>\<open>os.getenv(key)\<close>: the value of the variable, \<^verbatim>\<open>None\<close> when it is unset; it
  never raises.\<close>

definition os_getenv :: "string \<Rightarrow> ('r, 'c, string option) prog" where
  "os_getenv key X p = (Inr (environ p key), emit (Getenv key (environ p key)) p)"

text \<open>
  \<^verbatim>\<open>load_dotenv()\<close> of the python-dotenv package, which \<^verbatim>\<open>twilio_client.py\<close>
  imports: it opens the \<^verbatim>\<open>.env\<close> file, when there is one, and sets every variable
  of the file that \<^verbatim>\<open>os.environ\<close> does not hold yet; it returns whether the file
  held a variable.
\<close>

definition load_dotenv :: "('r, 'c, bool) prog" where
  "load_dotenv X p =
     (case dotenv_file p of
        None \<Rightarrow> (Inr False, p)
      | Some kvs \<Rightarrow>
          (Inr (kvs \<noteq> []),
           emit (Open_file ''.env'') (p\<lparr>environ := map_of (rev kvs) ++ environ p\<rparr>)))"

text \<open>\<^verbatim>\<open>pipeline(task, model=model)\<close>.\<close>

definition call_pipeline ::
  "string \<Rightarrow> string \<Rightarrow> ('r, 'c, string \<Rightarrow> int \<Rightarrow> exn + 'r) prog" where
  "call_pipeline task model X p =
     (case pipeline X task model of
        Inl e \<Rightarrow> (Inl e, emit (Call_pipeline task model (Some e)) p)
      | Inr obj \<Rightarrow> (Inr obj, emit (Call_pipeline task model None) p))"

text \<open>\<^verbatim>\<open>chatbot(prompt, max_length=max_length)\<close>, for a pipeline object \<open>chatbot\<close>.\<close>

definition call_chatbot ::
  "(string \<Rightarrow> int \<Rightarrow> exn + 'r) \<Rightarrow> string \<Rightarrow> int \<Rightarrow> ('r, 'c, 'r) prog" where
  "call_chatbot chatbot prompt max_length X p =
     (chatbot prompt max_length,
      emit (Call_chatbot prompt max_length (chatbot prompt max_length)) p)"

text \<open>\<^verbatim>\<open>Client(account_sid, auth_token)\<close>.\<close>

definition call_Client :: "string option \<Rightarrow> string option \<Rightarrow> ('r, 'c, 'c) prog" where
  "call_Client account_sid auth_token X p =
     (Client X account_sid auth_token,
      emit (Call_Client account_sid auth_token (Client X account_sid auth_token)) p)"

text \<open>\<^verbatim>\<open>print(x)\<close> writes \<^verbatim>\<open>str(x)\<close> and a newline to standard output.\<close>

definition print_line :: "string \<Rightarrow> ('r, 'c, unit) prog" where
  "print_line s X p = (Inr (), emit (Write_stdout (s @ [CHR 0x0A])) p)"

definition print_result :: "'r \<Rightarrow> ('r, 'c, unit) prog" where
  "print_result v X p = print_line (str_result X v) X p"

definition print_client :: "'c \<Rightarrow> ('r, 'c, unit) prog" where
  "print_client h X p = print_line (str_client X h) X p"

subsection \<open>The scripts\<close>

text \<open>\<^verbatim>\<open>verify/transformer.py\<close>.\<close>

definition transformer :: "('r, 'c, unit) prog" where
  "transformer =
     bind_io (call_pipeline ''text-generation'' ''distilgpt2'') (\<lambda>chatbot.
     bind_io (call_chatbot chatbot ''Hello!'' 20) (\<lambda>generated.
     print_result generated))"

text \<open>\<^verbatim>\<open>verify/twilio_client.py\<close>. The script imports \<open>load_dotenv\<close> and has no call
  of it.\<close>

definition twilio_client :: "('r, 'c, unit) prog" where
  "twilio_client =
     bind_io (os_getenv ''TWILIO_SID'') (\<lambda>account_sid.
     bind_io (os_getenv ''TWILIO_AUTH_TOKEN'') (\<lambda>auth_token.
     bind_io (call_Client account_sid auth_token) (\<lambda>client.
     print_client client)))"

subsection \<open>Running a script\<close>

text \<open>
  A run starts a script in a fresh process, with the environment and the \<^verbatim>\<open>.env\<close>
  file it finds. What can be observed of it is how it ended (\<open>Inr ()\<close> at the end of the
  script, \<open>Inl e\<close> when the exception \<open>e\<close> ended it) and its events.
\<close>

definition run ::
  "('r, 'c, unit) prog \<Rightarrow> ('r, 'c) externals \<Rightarrow> (string \<rightharpoonup> string) \<Rightarrow>
   (string \<times> string) list option \<Rightarrow> (exn + unit) \<times> ('r, 'c) event list" where
  "run script X env dotenv =
     (case script X \<lparr>environ = env, dotenv_file = dotenv, events = []\<rparr> of
        (res, p) \<Rightarrow> (res, events p))"

definition outcome :: "(exn + unit) \<times> ('r, 'c) event list \<Rightarrow> exn + unit" where
  "outcome r = fst r"

definition trace :: "(exn + unit) \<times> ('r, 'c) event list \<Rightarrow> ('r, 'c) event list" where
  "trace r = snd r"

subsection \<open>Reading a trace\<close>

fun is_getenv :: "('r, 'c) event \<Rightarrow> bool" where
  "is_getenv (Getenv key v) = True"
| "is_getenv _ = False"

fun is_file_access :: "('r, 'c) event \<Rightarrow> bool" where
  "is_file_access (Open_file path) = True"
| "is_file_access _ = False"

fun is_pipeline_call :: "('r, 'c) event \<Rightarrow> bool" where
  "is_pipeline_call (Call_pipeline task model res) = True"
| "is_pipeline_call _ = False"

fun is_chatbot_call :: "('r, 'c) event \<Rightarrow> bool" where
  "is_chatbot_call (Call_chatbot prompt n res) = True"
| "is_chatbot_call _ = False"

fun is_Client_call :: "('r, 'c) event \<Rightarrow> bool" where
  "is_Client_call (Call_Client sid tok res) = True"
| "is_Client_call _ = False"

fun is_network_request :: "('r, 'c) event \<Rightarrow> bool" where
  "is_network_request (Network_request h) = True"
| "is_network_request _ = False"

text \<open>The completions a run obtained: the values its pipeline-object calls returned.\<close>

fun completions :: "('r, 'c) event list \<Rightarrow> 'r list" where
  "completions [] = []"
| "completions (Call_chatbot prompt n (Inr v) # t) = v # completions t"
| "completions (ev # t) = completions t"

text \<open>The text a run wrote to standard output.\<close>

fun stdout :: "('r, 'c) event list \<Rightarrow> string" where
  "stdout [] = []"
| "stdout (Write_stdout s # t) = s @ stdout t"
| "stdout (ev # t) = stdout t"

text \<open>The arguments of the pipeline-object calls of a run, in order.\<close>

fun chatbot_calls :: "('r, 'c) event list \<Rightarrow> (string \<times> int) list" where
  "chatbot_calls [] = []"
| "chatbot_calls (Call_chatbot prompt n res # t) = (prompt, n) # chatbot_calls t"
| "chatbot_calls (ev # t) = chatbot_calls t"

subsection \<open>Example libraries\<close>

text \<open>
  Libraries to run the scripts with: one where every call returns, and one for each call
  that raises. The pipeline object of the first answers with the prompt itself.
\<close>

definition libs_ok :: "(string, string) externals" where
  "libs_ok =
     \<lparr>pipeline = (\<lambda>task model. Inr (\<lambda>prompt n. Inr prompt)),
      Client = (\<lambda>sid tok. Inr ''handle''),
      str_result = (\<lambda>v. v),
      str_client = (\<lambda>h. h)\<rparr>"

definition libs_load_fails :: "(string, string) externals" where
  "libs_load_fails = libs_ok\<lparr>pipeline := (\<lambda>task model. Inl ''OSError'')\<rparr>"

definition libs_generate_fails :: "(string, string) externals" where
  "libs_generate_fails =
     libs_ok\<lparr>pipeline := (\<lambda>task model. Inr (\<lambda>prompt n. Inl ''RuntimeError''))\<rparr>"

text \<open>A constructor that raises when a credential is \<^verbatim>\<open>None\<close>.\<close>

definition libs_Client_needs_credentials :: "(string, string) externals" where
  "libs_Client_needs_credentials =
     libs_ok\<lparr>Client := (\<lambda>sid tok.
       if sid = None \<or> tok = None then Inl ''TwilioException'' else Inr ''handle'')\<rparr>"

subsection \<open>Example environments\<close>

definition env_unset :: "string \<rightharpoonup> string" where
  "env_unset = Map.empty"

definition env_both :: "string \<rightharpoonup> string" where
  "env_both = [''TWILIO_SID'' \<mapsto> ''AC123'', ''TWILIO_AUTH_TOKEN'' \<mapsto> ''secret'']"

definition env_token_only :: "string \<rightharpoonup> string" where
  "env_token_only = [''TWILIO_AUTH_TOKEN'' \<mapsto> ''secret'']"

text \<open>The credentials of \<open>env_both\<close>, and other variables beside them.\<close>

definition env_both_and_more :: "string \<rightharpoonup> string" where
  "env_both_and_more =
     env_both(''TWILIO_ACCOUNT_SID'' \<mapsto> ''AC999'', ''HOME'' \<mapsto> ''/root'')"

text \<open>A \<^verbatim>\<open>.env\<close> file that names other credentials.\<close>

definition dotenv_other :: "(string \<times> string) list option" where
  "dotenv_other = Some [(''TWILIO_SID'', ''AC777''), (''TWILIO_AUTH_TOKEN'', ''other'')]"


subsection \<open>A constructor that reads the environment\<close>



section \<open>What a run of each script is\<close>

text \<open>The run of \<^verbatim>\<open>transformer.py\<close>, by what the library answers.\<close>

lemma run_transformer_load_raises:
  "pipeline X ''text-generation'' ''distilgpt2'' = Inl e \<Longrightarrow>
   run transformer X env dotenv =
     (Inl e, [Call_pipeline ''text-generation'' ''distilgpt2'' (Some e)])"
  by (simp add: run_def transformer_def bind_io_def call_pipeline_def emit_def)

lemma run_transformer_generate_raises:
  "pipeline X ''text-generation'' ''distilgpt2'' = Inr chatbot \<Longrightarrow>
   chatbot ''Hello!'' 20 = Inl e \<Longrightarrow>
   run transformer X env dotenv =
     (Inl e, [Call_pipeline ''text-generation'' ''distilgpt2'' None,
              Call_chatbot ''Hello!'' 20 (Inl e)])"
  by (simp add: run_def transformer_def bind_io_def call_pipeline_def call_chatbot_def
      emit_def)

lemma run_transformer_returns:
  "pipeline X ''text-generation'' ''distilgpt2'' = Inr chatbot \<Longrightarrow>
   chatbot ''Hello!'' 20 = Inr v \<Longrightarrow>
   run transformer X env dotenv =
     (Inr (), [Call_pipeline ''text-generation'' ''distilgpt2'' None,
               Call_chatbot ''Hello!'' 20 (Inr v),
               Write_stdout (str_result X v @ [CHR 0x0A])])"
  by (simp add: run_def transformer_def bind_io_def call_pipeline_def call_chatbot_def
      print_result_def print_line_def emit_def)

text \<open>The run of \<^verbatim>\<open>twilio_client.py\<close>, by what the constructor answers.\<close>

lemma run_twilio_client_raises:
  "Client X (env ''TWILIO_SID'') (env ''TWILIO_AUTH_TOKEN'') = Inl e \<Longrightarrow>
   run twilio_client X env dotenv =
     (Inl e, [Getenv ''TWILIO_SID'' (env ''TWILIO_SID''),
              Getenv ''TWILIO_AUTH_TOKEN'' (env ''TWILIO_AUTH_TOKEN''),
              Call_Client (env ''TWILIO_SID'') (env ''TWILIO_AUTH_TOKEN'') (Inl e)])"
  by (simp add: run_def twilio_client_def bind_io_def os_getenv_def call_Client_def
      emit_def)

lemma run_twilio_client_returns:
  "Client X (env ''TWILIO_SID'') (env ''TWILIO_AUTH_TOKEN'') = Inr h \<Longrightarrow>
   run twilio_client X env dotenv =
     (Inr (), [Getenv ''TWILIO_SID'' (env ''TWILIO_SID''),
               Getenv ''TWILIO_AUTH_TOKEN'' (env ''TWILIO_AUTH_TOKEN''),
               Call_Client (env ''TWILIO_SID'') (env ''TWILIO_AUTH_TOKEN'') (Inr h),
               Write_stdout (str_client X h @ [CHR 0x0A])])"
  by (simp add: run_def twilio_client_def bind_io_def os_getenv_def call_Client_def
      print_client_def print_line_def emit_def)

text \<open>What \<open>load_dotenv\<close> does when it is called: neither script calls it.\<close>

lemma load_dotenv_opens_file:
  "dotenv_file p = Some kvs \<Longrightarrow>
   events (snd (load_dotenv X p)) = events p @ [Open_file ''.env''] \<and>
   environ (snd (load_dotenv X p)) = map_of (rev kvs) ++ environ p"
  by (simp add: load_dotenv_def emit_def)

subsection \<open>The example libraries and environments, evaluated\<close>

lemma libs_ok_answers:
  "pipeline libs_ok task model = Inr (\<lambda>prompt n. Inr prompt)"
  "Client libs_ok sid tok = Inr ''handle''"
  "str_result libs_ok v = v"
  "str_client libs_ok h = h"
  by (simp_all add: libs_ok_def)

lemma libs_load_fails_answers:
  "pipeline libs_load_fails task model = Inl ''OSError''"
  by (simp add: libs_load_fails_def)

lemma libs_generate_fails_answers:
  "pipeline libs_generate_fails task model = Inr (\<lambda>prompt n. Inl ''RuntimeError'')"
  by (simp add: libs_generate_fails_def)

lemma libs_Client_needs_credentials_answers:
  "Client libs_Client_needs_credentials None tok = Inl ''TwilioException''"
  "Client libs_Client_needs_credentials sid None = Inl ''TwilioException''"
  "Client libs_Client_needs_credentials (Some a) (Some b) = Inr ''handle''"
  "str_client libs_Client_needs_credentials h = h"
  by (simp_all add: libs_Client_needs_credentials_def libs_ok_def)

lemma env_both_values:
  "env_both ''TWILIO_SID'' = Some ''AC123''"
  "env_both ''TWILIO_AUTH_TOKEN'' = Some ''secret''"
  "env_both ''TWILIO_ACCOUNT_SID'' = None"
  by (simp_all add: env_both_def)

lemma env_token_only_values:
  "env_token_only ''TWILIO_SID'' = None"
  "env_token_only ''TWILIO_AUTH_TOKEN'' = Some ''secret''"
  by (simp_all add: env_token_only_def)

lemma env_both_and_more_values:
  "env_both_and_more ''TWILIO_SID'' = Some ''AC123''"
  "env_both_and_more ''TWILIO_AUTH_TOKEN'' = Some ''secret''"
  "env_both_and_more ''TWILIO_ACCOUNT_SID'' = Some ''AC999''"
  by (simp_all add: env_both_and_more_def env_both_def)



section \<open>The text-generation script\<close>

text \<open>
  C1. The script calls the pipeline object at most once, and only with the prompt
  \<^verbatim>\<open>"Hello!"\<close> and \<^verbatim>\<open>max_length=20\<close>. In every run in which
  \<^verbatim>\<open>pipeline(...)\<close> returns an object it calls that object exactly once with these
  arguments, and when the call returns a value the script writes that value (its
  \<^verbatim>\<open>str\<close> and a newline, nothing else) to standard output and ends normally.
\<close>

theorem transformer_generation_call:
  "(chatbot_calls (trace (run transformer X env dotenv)) = [] \<or>
    chatbot_calls (trace (run transformer X env dotenv)) = [(''Hello!'', 20)]) \<and>
   (\<forall>chatbot. pipeline X ''text-generation'' ''distilgpt2'' = Inr chatbot \<longrightarrow>
      chatbot_calls (trace (run transformer X env dotenv)) = [(''Hello!'', 20)] \<and>
      (\<forall>v. chatbot ''Hello!'' 20 = Inr v \<longrightarrow>
         stdout (trace (run transformer X env dotenv)) = str_result X v @ [CHR 0x0A] \<and>
         outcome (run transformer X env dotenv) = Inr ()))"
proof (cases "pipeline X ''text-generation'' ''distilgpt2''")
  case (Inl e)
  then show ?thesis
    by (simp add: run_transformer_load_raises trace_def)
next
  case (Inr chatbot)
  show ?thesis
  proof (cases "chatbot ''Hello!'' 20")
    case (Inl e)
    with Inr show ?thesis
      by (simp add: run_transformer_generate_raises trace_def)
  next
    case returned: (Inr v)
    with Inr show ?thesis
      by (simp add: run_transformer_returns trace_def outcome_def)
  qed
qed

text \<open>With a library whose calls return, the one call is made and its value written.\<close>

theorem transformer_generation_call_witness:
  "chatbot_calls (trace (run transformer libs_ok env_unset None)) = [(''Hello!'', 20)] \<and>
   stdout (trace (run transformer libs_ok env_unset None)) = ''Hello!'' @ [CHR 0x0A] \<and>
   outcome (run transformer libs_ok env_unset None) = Inr ()"
  using transformer_generation_call [of libs_ok env_unset None]
  by (simp add: libs_ok_answers)

text \<open>
  When \<^verbatim>\<open>pipeline(...)\<close> raises (the model cannot be loaded), the script ends at
  line 2: the pipeline object is never called, not once, and nothing is written.
\<close>

theorem transformer_no_call_when_load_raises:
  "pipeline libs_load_fails ''text-generation'' ''distilgpt2'' = Inl ''OSError'' \<and>
   chatbot_calls (trace (run transformer libs_load_fails env_unset None)) = [] \<and>
   stdout (trace (run transformer libs_load_fails env_unset None)) = []"
  by (simp add: libs_load_fails_answers run_transformer_load_raises trace_def)

text \<open>
  C7. No run of the script obtains more than one completion. A run obtains exactly one
  completion if and only if \<^verbatim>\<open>pipeline(...)\<close> returns an object and the call of that
  object with the fixed prompt returns a value; that value is then the completion. A
  run in which either call raises obtains none.
\<close>

theorem transformer_completions:
  "length (completions (trace (run transformer X env dotenv))) \<le> 1 \<and>
   (length (completions (trace (run transformer X env dotenv))) = 1) =
     (\<exists>chatbot v. pipeline X ''text-generation'' ''distilgpt2'' = Inr chatbot \<and>
        chatbot ''Hello!'' 20 = Inr v) \<and>
   (\<forall>chatbot v. pipeline X ''text-generation'' ''distilgpt2'' = Inr chatbot \<and>
        chatbot ''Hello!'' 20 = Inr v \<longrightarrow>
      completions (trace (run transformer X env dotenv)) = [v])"
proof (cases "pipeline X ''text-generation'' ''distilgpt2''")
  case (Inl e)
  then show ?thesis
    by (simp add: run_transformer_load_raises trace_def)
next
  case (Inr chatbot)
  show ?thesis
  proof (cases "chatbot ''Hello!'' 20")
    case (Inl e)
    with Inr show ?thesis
      by (simp add: run_transformer_generate_raises trace_def)
  next
    case returned: (Inr v)
    with Inr show ?thesis
      by (simp add: run_transformer_returns trace_def)
  qed
qed

theorem transformer_completions_witness:
  "completions (trace (run transformer libs_ok env_unset None)) = [''Hello!''] \<and>
   length (completions (trace (run transformer libs_load_fails env_unset None))) \<noteq> 1"
  using transformer_completions [of libs_ok env_unset None]
    transformer_completions [of libs_load_fails env_unset None]
  by (simp add: libs_ok_answers libs_load_fails_answers)

text \<open>
  When the call of the pipeline object raises, the run has obtained no completion: the
  script has no second attempt and no fallback.
\<close>

theorem transformer_no_completion_when_generation_raises:
  "completions (trace (run transformer libs_generate_fails env_unset None)) = [] \<and>
   outcome (run transformer libs_generate_fails env_unset None) = Inl ''RuntimeError''"
  by (simp add: libs_generate_fails_answers
      run_transformer_generate_raises [where chatbot = "\<lambda>prompt n. Inl ''RuntimeError''"]
      trace_def outcome_def)

section \<open>The messaging-client script\<close>

text \<open>
  C2. The script reads exactly two variables of the process environment,
  \<^verbatim>\<open>TWILIO_SID\<close> and \<^verbatim>\<open>TWILIO_AUTH_TOKEN\<close>, in this order. Whatever the two
  reads gave (a value of any form, or \<^verbatim>\<open>None\<close> for an unset variable: no default
  and no check) is what the one call of \<^verbatim>\<open>Client\<close> receives. The script opens no
  file, and when the constructor returns a handle it prints the handle's
  representation.
\<close>

theorem twilio_client_reads_two_variables:
  "filter is_getenv (trace (run twilio_client X env dotenv)) =
     [Getenv ''TWILIO_SID'' (env ''TWILIO_SID''),
      Getenv ''TWILIO_AUTH_TOKEN'' (env ''TWILIO_AUTH_TOKEN'')] \<and>
   filter is_Client_call (trace (run twilio_client X env dotenv)) =
     [Call_Client (env ''TWILIO_SID'') (env ''TWILIO_AUTH_TOKEN'')
        (Client X (env ''TWILIO_SID'') (env ''TWILIO_AUTH_TOKEN''))] \<and>
   filter is_file_access (trace (run twilio_client X env dotenv)) = [] \<and>
   (\<forall>h. Client X (env ''TWILIO_SID'') (env ''TWILIO_AUTH_TOKEN'') = Inr h \<longrightarrow>
      stdout (trace (run twilio_client X env dotenv)) = str_client X h @ [CHR 0x0A])"
proof (cases "Client X (env ''TWILIO_SID'') (env ''TWILIO_AUTH_TOKEN'')")
  case (Inl e)
  then show ?thesis
    by (simp add: run_twilio_client_raises trace_def)
next
  case (Inr h)
  then show ?thesis
    by (simp add: run_twilio_client_returns trace_def)
qed

text \<open>A run among other variables and beside a \<^verbatim>\<open>.env\<close> file of other credentials.\<close>

theorem twilio_client_reads_two_variables_witness:
  "filter is_getenv (trace (run twilio_client libs_ok env_both_and_more dotenv_other)) =
     [Getenv ''TWILIO_SID'' (Some ''AC123''),
      Getenv ''TWILIO_AUTH_TOKEN'' (Some ''secret'')] \<and>
   filter is_Client_call (trace (run twilio_client libs_ok env_both_and_more dotenv_other)) =
     [Call_Client (Some ''AC123'') (Some ''secret'') (Inr ''handle'')] \<and>
   stdout (trace (run twilio_client libs_ok env_both_and_more dotenv_other)) =
     ''handle'' @ [CHR 0x0A]"
  using twilio_client_reads_two_variables [of libs_ok env_both_and_more dotenv_other]
  by (simp add: libs_ok_answers env_both_and_more_values)

text \<open>
  C4. If either of the two variables is unset, the script still calls \<^verbatim>\<open>Client\<close>,
  exactly once, and passes \<^verbatim>\<open>None\<close> for the unset variable. The script itself
  detects nothing: the run ends as the constructor decides. When the constructor
  returns a handle for the null credential, the handle is printed and the run ends
  normally; when the constructor raises, its exception ends the run.
\<close>

theorem twilio_client_absent_variable:
  "env ''TWILIO_SID'' = None \<or> env ''TWILIO_AUTH_TOKEN'' = None \<Longrightarrow>
   \<exists>sid tok.
     filter is_Client_call (trace (run twilio_client X env dotenv)) =
       [Call_Client sid tok (Client X sid tok)] \<and>
     sid = env ''TWILIO_SID'' \<and> tok = env ''TWILIO_AUTH_TOKEN'' \<and>
     (sid = None \<or> tok = None) \<and>
     (case Client X sid tok of
        Inl e \<Rightarrow> outcome (run twilio_client X env dotenv) = Inl e
      | Inr h \<Rightarrow>
          outcome (run twilio_client X env dotenv) = Inr () \<and>
          stdout (trace (run twilio_client X env dotenv)) = str_client X h @ [CHR 0x0A])"
proof (cases "Client X (env ''TWILIO_SID'') (env ''TWILIO_AUTH_TOKEN'')")
  case (Inl e)
  assume "env ''TWILIO_SID'' = None \<or> env ''TWILIO_AUTH_TOKEN'' = None"
  with Inl show ?thesis
    by (simp add: run_twilio_client_raises trace_def outcome_def)
next
  case (Inr h)
  assume "env ''TWILIO_SID'' = None \<or> env ''TWILIO_AUTH_TOKEN'' = None"
  with Inr show ?thesis
    by (simp add: run_twilio_client_returns trace_def outcome_def)
qed

text \<open>With \<^verbatim>\<open>TWILIO_SID\<close> unset and a constructor that accepts \<^verbatim>\<open>None\<close>.\<close>

theorem twilio_client_absent_variable_witness:
  "(env_token_only ''TWILIO_SID'' = None \<or> env_token_only ''TWILIO_AUTH_TOKEN'' = None) \<and>
   filter is_Client_call (trace (run twilio_client libs_ok env_token_only None)) =
     [Call_Client None (Some ''secret'') (Inr ''handle'')] \<and>
   outcome (run twilio_client libs_ok env_token_only None) = Inr () \<and>
   stdout (trace (run twilio_client libs_ok env_token_only None)) = ''handle'' @ [CHR 0x0A]"
proof -
  have absent:
    "env_token_only ''TWILIO_SID'' = None \<or> env_token_only ''TWILIO_AUTH_TOKEN'' = None"
    by (simp add: env_token_only_values)
  show ?thesis
    using absent twilio_client_absent_variable [OF absent, of libs_ok None]
    by (simp add: libs_ok_answers env_token_only_values)
qed

text \<open>
  With \<^verbatim>\<open>TWILIO_SID\<close> unset and a constructor that raises on a \<^verbatim>\<open>None\<close>
  credential, the call is made with \<^verbatim>\<open>None\<close> and the run ends with the
  constructor's exception: there is no client object, and nothing is printed.
\<close>

theorem twilio_client_absent_variable_may_fail:
  "env_token_only ''TWILIO_SID'' = None \<and>
   filter is_Client_call
     (trace (run twilio_client libs_Client_needs_credentials env_token_only None)) =
     [Call_Client None (Some ''secret'') (Inl ''TwilioException'')] \<and>
   outcome (run twilio_client libs_Client_needs_credentials env_token_only None) =
     Inl ''TwilioException'' \<and>
   stdout (trace (run twilio_client libs_Client_needs_credentials env_token_only None)) = []"
  by (simp add: env_token_only_values libs_Client_needs_credentials_answers
      run_twilio_client_raises [where e = "''TwilioException''"] trace_def outcome_def)

text \<open>
  C8. No run of the script issues a request through the client handle. When the
  constructor returns a handle, all that happens from the construction on is the
  construction and the printing of the handle's representation.
\<close>

theorem client_handle_lifecycle:
  "filter is_network_request (trace (run twilio_client X env dotenv)) = [] \<and>
   (\<forall>h. Client X (env ''TWILIO_SID'') (env ''TWILIO_AUTH_TOKEN'') = Inr h \<longrightarrow>
      dropWhile (\<lambda>ev. \<not> is_Client_call ev) (trace (run twilio_client X env dotenv)) =
        [Call_Client (env ''TWILIO_SID'') (env ''TWILIO_AUTH_TOKEN'') (Inr h),
         Write_stdout (str_client X h @ [CHR 0x0A])])"
  by (cases "Client X (env ''TWILIO_SID'') (env ''TWILIO_AUTH_TOKEN'')")
    (simp_all add: run_twilio_client_raises run_twilio_client_returns trace_def)

theorem client_handle_lifecycle_witness:
  "filter is_network_request (trace (run twilio_client libs_ok env_both None)) = [] \<and>
   dropWhile (\<lambda>ev. \<not> is_Client_call ev) (trace (run twilio_client libs_ok env_both None)) =
     [Call_Client (Some ''AC123'') (Some ''secret'') (Inr ''handle''),
      Write_stdout (''handle'' @ [CHR 0x0A])]"
  using client_handle_lifecycle [of libs_ok env_both None]
  by (simp add: libs_ok_answers env_both_values)




section \<open>Both scripts\<close>

text \<open>
  C5. Neither script handles a failure. When \<^verbatim>\<open>pipeline(...)\<close> raises, when the
  call of the pipeline object raises, or when \<^verbatim>\<open>Client(...)\<close> raises, the run ends
  with that very exception: the raising call is its last event and nothing has been
  written to standard output.
\<close>

theorem failure_propagates:
  "(pipeline X ''text-generation'' ''distilgpt2'' = Inl e \<longrightarrow>
      outcome (run transformer X env dotenv) = Inl e \<and>
      last (trace (run transformer X env dotenv)) =
        Call_pipeline ''text-generation'' ''distilgpt2'' (Some e) \<and>
      stdout (trace (run transformer X env dotenv)) = []) \<and>
   (pipeline X ''text-generation'' ''distilgpt2'' = Inr chatbot \<and>
    chatbot ''Hello!'' 20 = Inl e \<longrightarrow>
      outcome (run transformer X env dotenv) = Inl e \<and>
      last (trace (run transformer X env dotenv)) = Call_chatbot ''Hello!'' 20 (Inl e) \<and>
      stdout (trace (run transformer X env dotenv)) = []) \<and>
   (Client X (env ''TWILIO_SID'') (env ''TWILIO_AUTH_TOKEN'') = Inl e \<longrightarrow>
      outcome (run twilio_client X env dotenv) = Inl e \<and>
      last (trace (run twilio_client X env dotenv)) =
        Call_Client (env ''TWILIO_SID'') (env ''TWILIO_AUTH_TOKEN'') (Inl e) \<and>
      stdout (trace (run twilio_client X env dotenv)) = [])"
  by (simp add: run_transformer_load_raises run_transformer_generate_raises
      run_twilio_client_raises trace_def outcome_def)

text \<open>One run for each of the three calls raising.\<close>

theorem failure_propagates_witness:
  "outcome (run transformer libs_load_fails env_unset None) = Inl ''OSError'' \<and>
   stdout (trace (run transformer libs_load_fails env_unset None)) = [] \<and>
   outcome (run transformer libs_generate_fails env_unset None) = Inl ''RuntimeError'' \<and>
   stdout (trace (run transformer libs_generate_fails env_unset None)) = [] \<and>
   outcome (run twilio_client libs_Client_needs_credentials env_token_only None) =
     Inl ''TwilioException'' \<and>
   stdout (trace (run twilio_client libs_Client_needs_credentials env_token_only None)) = []"
  using
    failure_propagates [of libs_load_fails "''OSError''" env_unset None undefined]
    failure_propagates [of libs_generate_fails "''RuntimeError''" env_unset None
      "\<lambda>prompt n. Inl ''RuntimeError''"]
    failure_propagates [of libs_Client_needs_credentials "''TwilioException''"
      env_token_only None undefined]
  by (simp add: libs_load_fails_answers libs_generate_fails_answers
      libs_Client_needs_credentials_answers env_token_only_values)

text \<open>
  C6. No run of either script opens a file: the events of a run are reads of the
  environment, calls of the libraries and writes to standard output. In particular
  the messaging script never reads the \<^verbatim>\<open>.env\<close> file, which only a call of
  \<open>load_dotenv\<close> would open.
\<close>

theorem scripts_access_no_file:
  "filter is_file_access (trace (run transformer X env dotenv)) = [] \<and>
   filter is_file_access (trace (run twilio_client X env' dotenv')) = []"
proof
  show "filter is_file_access (trace (run transformer X env dotenv)) = []"
  proof (cases "pipeline X ''text-generation'' ''distilgpt2''")
    case (Inl e)
    then show ?thesis by (simp add: run_transformer_load_raises trace_def)
  next
    case (Inr chatbot)
    then show ?thesis
      by (cases "chatbot ''Hello!'' 20")
        (simp_all add: run_transformer_generate_raises run_transformer_returns trace_def)
  qed
next
  show "filter is_file_access (trace (run twilio_client X env' dotenv')) = []"
    by (cases "Client X (env' ''TWILIO_SID'') (env' ''TWILIO_AUTH_TOKEN'')")
      (simp_all add: run_twilio_client_raises run_twilio_client_returns trace_def)
qed

end
